theory Spec2Isabelle
  imports Main "HOL-Library.List_Lexorder" "HOL-Library.Char_ord"
begin

section \<open>The schema version constants\<close>

text \<open>
  \<^verbatim>\<open>synapse/storage/schema/__init__.py\<close> declares two module constants, both Python
  integers. \<^verbatim>\<open>SCHEMA_VERSION = 65\<close> is the schema the codebase expects;
  \<^verbatim>\<open>SCHEMA_COMPAT_VERSION = 61\<close> is the limit on how far the codebase can be rolled back,
  and is the value stored in the database.
\<close>

definition SCHEMA_VERSION :: int where
  "SCHEMA_VERSION = 65"

definition SCHEMA_COMPAT_VERSION :: int where
  "SCHEMA_COMPAT_VERSION = 61"

text \<open>
  The docstring of \<^verbatim>\<open>SCHEMA_COMPAT_VERSION\<close> states the start-up condition: "This value is
  stored in the database, and checked on startup. If the value in the database is greater
  than SCHEMA_VERSION, then Synapse will refuse to start." The function that performs the
  check is not part of this module; the condition below is the docstring's, with the value
  read from the database as its argument.
\<close>

definition refuses_to_start :: "int \<Rightarrow> bool" where
  "refuses_to_start stored_compat_version = (stored_compat_version > SCHEMA_VERSION)"

section \<open>Events and the mainline comparison\<close>

text \<open>
  Modelled from the spec: the event of the data model (section 3). No source file of the
  event graph is part of these files, so the record follows the spec's list of attributes:
  the identifier, the event type, the optional state key, the origin server, the creation
  timestamp, the ordered parent identifiers and the auth-event identifiers. The content
  payload, the signatures and the content hash are opaque to the core and are left out.
  Identifiers are strings; their order is the lexicographic order on character lists.
\<close>

type_synonym event_id = string

record event =
  event_id :: event_id
  event_type :: string
  state_key :: "string option"
  origin :: string
  origin_ts :: nat
  prev_events :: "event_id list"
  auth_events :: "event_id list"

text \<open>
  Modelled from the spec: the comparison of the mainline ordering (section 4.4, step 2a).
  The state-resolution code is not part of these files. The spec orders two events by the
  mainline depth of their nearest mainline ancestor, "ties broken by: shallower depth first,
  then earlier origin timestamp, then lexicographically smaller event identifier". The
  mainline depth and the depth of an event come from the graph walk, which the comparison
  only reads: they are the arguments \<open>mainline_depth\<close> and \<open>depth\<close>.
\<close>

definition mainline_before ::
  "(event \<Rightarrow> nat) \<Rightarrow> (event \<Rightarrow> nat) \<Rightarrow> event \<Rightarrow> event \<Rightarrow> bool" where
  "mainline_before mainline_depth depth a b =
     (if mainline_depth a \<noteq> mainline_depth b then mainline_depth a < mainline_depth b
      else if depth a \<noteq> depth b then depth a < depth b
      else if origin_ts a \<noteq> origin_ts b then origin_ts a < origin_ts b
      else event_id a < event_id b)"

text \<open>An event with a given identifier and timestamp, for concrete instances.\<close>

definition example_event :: "event_id \<Rightarrow> nat \<Rightarrow> event" where
  "example_event i t =
     \<lparr>event_id = i, event_type = ''m.room.member'', state_key = Some ''@b:example.com'',
      origin = ''example.com'', origin_ts = t, prev_events = [''$j''], auth_events = [''$pl'']\<rparr>"

section \<open>Properties of the schema constants\<close>

text \<open>
  C10. The constants satisfy \<open>SCHEMA_COMPAT_VERSION \<le> SCHEMA_VERSION\<close>, concretely
  \<open>61 \<le> 65\<close>: the compatibility floor that this codebase stores in the database does not
  exceed the schema version the codebase expects, so a database holding the value this
  codebase stores does not meet the documented refuse-to-start condition.
\<close>

theorem schema_compat_le_schema_version:
  "SCHEMA_COMPAT_VERSION = 61 \<and> SCHEMA_VERSION = 65
   \<and> SCHEMA_COMPAT_VERSION \<le> SCHEMA_VERSION
   \<and> \<not> refuses_to_start SCHEMA_COMPAT_VERSION"
  by (simp add: SCHEMA_COMPAT_VERSION_def SCHEMA_VERSION_def refuses_to_start_def)

section \<open>The mainline comparison is a strict total order\<close>

lemma mainline_before_irrefl: "\<not> mainline_before md d a a"
  by (simp add: mainline_before_def)

lemma mainline_before_trans:
  "mainline_before md d a b \<Longrightarrow> mainline_before md d b c \<Longrightarrow> mainline_before md d a c"
  unfolding mainline_before_def by (auto split: if_splits)

lemma mainline_before_connected:
  "event_id a \<noteq> event_id b \<Longrightarrow> mainline_before md d a b \<or> mainline_before md d b a"
  unfolding mainline_before_def by auto

lemma mainline_before_asym:
  "mainline_before md d a b \<Longrightarrow> \<not> mainline_before md d b a"
  unfolding mainline_before_def by (auto split: if_splits)

text \<open>
  C3. The mainline ordering is a total order on the events being resolved: of two events
  with distinct identifiers, the comparison by mainline depth, then depth, then origin
  timestamp, then identifier puts exactly one strictly before the other, so every tie is
  broken; no event is before itself, and the comparison is transitive. Events are
  content-addressed, so distinct events are events with distinct identifiers.
\<close>

theorem mainline_before_total_order:
  "(event_id a \<noteq> event_id b \<longrightarrow>
      (mainline_before md d a b \<or> mainline_before md d b a)
      \<and> \<not> (mainline_before md d a b \<and> mainline_before md d b a))
   \<and> \<not> mainline_before md d a a
   \<and> (mainline_before md d a b \<and> mainline_before md d b c \<longrightarrow> mainline_before md d a c)"
  using mainline_before_irrefl mainline_before_trans mainline_before_connected
    mainline_before_asym by blast

text \<open>
  The instance: three events that tie on mainline depth, depth and origin timestamp and
  differ in their identifiers only.
\<close>

theorem mainline_before_total_order_witness:
  "event_id (example_event ''$a'' 7) \<noteq> event_id (example_event ''$b'' 7)
   \<and> mainline_before (\<lambda>e. 2) (\<lambda>e. 5) (example_event ''$a'' 7) (example_event ''$b'' 7)
   \<and> \<not> mainline_before (\<lambda>e. 2) (\<lambda>e. 5) (example_event ''$b'' 7) (example_event ''$a'' 7)
   \<and> mainline_before (\<lambda>e. 2) (\<lambda>e. 5) (example_event ''$b'' 7) (example_event ''$c'' 7)
   \<and> mainline_before (\<lambda>e. 2) (\<lambda>e. 5) (example_event ''$a'' 7) (example_event ''$c'' 7)"
proof -
  let ?a = "example_event ''$a'' 7" and ?b = "example_event ''$b'' 7"
    and ?c = "example_event ''$c'' 7"
  have ids: "event_id ?a \<noteq> event_id ?b"
    by (simp add: example_event_def)
  have ab: "mainline_before (\<lambda>e. 2) (\<lambda>e. 5) ?a ?b"
    by (simp add: mainline_before_def example_event_def)
  have bc: "mainline_before (\<lambda>e. 2) (\<lambda>e. 5) ?b ?c"
    by (simp add: mainline_before_def example_event_def)
  from ids ab bc mainline_before_total_order [of ?a ?b "\<lambda>e. 2" "\<lambda>e. 5" ?c]
  show ?thesis by blast
qed

end
